theory Spec2Isabelle
  imports Complex_Main "HOL-Library.Monad_Syntax"
begin

section \<open>The recursive Fibonacci function\<close>

text \<open>
  The notebook's first code cell:
  \<^verbatim>\<open>
  def fib(n):
      if n == 0 or n == 1:
          return 1
      else:
          return fib(n-1) + fib(n-2)
  \<close>
  Python integers are unbounded, so the argument and the result are of type \<open>int\<close>.
  Nothing in the source bounds the recursion from below: for an argument that never
  meets a base case the call does not return.  The model is therefore the least fixed
  point in the option monad, where \<open>None\<close> is "does not return a value".  The left
  operand \<open>fib(n-1)\<close> is evaluated first, as in Python.  The interpreter's bound
  on the depth of the call stack is a setting of the runtime and is not modelled.
\<close>

partial_function (option) fib :: "int \<Rightarrow> int option" where
  "fib n = (if n = 0 \<or> n = 1 then Some 1
            else do { a \<leftarrow> fib (n - 1); b \<leftarrow> fib (n - 2); Some (a + b) })"

text \<open>
  The number of invocations of \<open>fib\<close> that one call \<open>fib(n)\<close> performs, itself
  included: the figure a deterministic profiler reports as \<open>ncalls\<close>.  It follows
  the same recursion: one for the call itself, plus the invocations made by each of the
  two recursive calls.  No result is stored or looked up anywhere in the source, so
  both recursive calls are always carried out.
\<close>

partial_function (option) fib_calls :: "int \<Rightarrow> nat option" where
  "fib_calls n = (if n = 0 \<or> n = 1 then Some 1
            else do { a \<leftarrow> fib_calls (n - 1); b \<leftarrow> fib_calls (n - 2); Some (1 + a + b) })"

text \<open>
  The textbook Fibonacci sequence \<open>F\<^sub>0 = 0\<close>, \<open>F\<^sub>1 = 1\<close>,
  \<open>F\<^sub>k\<^sub>+\<^sub>2 = F\<^sub>k\<^sub>+\<^sub>1 + F\<^sub>k\<close>, as the reference against which the code is compared.
\<close>

fun fibonacci :: "nat \<Rightarrow> nat" where
  "fibonacci 0 = 0"
| "fibonacci (Suc 0) = 1"
| "fibonacci (Suc (Suc k)) = fibonacci (Suc k) + fibonacci k"

section \<open>Numbers and the runtime library\<close>

text \<open>
  The workload and the timer compute with Python floats through \<open>math.sin\<close>,
  \<open>time.perf_counter\<close>, the float operators and float literals.  These belong to the
  interpreter and the C library, not to the repository, so the float type is a type
  parameter \<open>'f\<close> and its operations are the fields of a record that every function
  below takes as its first argument.
\<close>

record 'f runtime =
  sin_f :: "'f \<Rightarrow> 'f"            \<comment> \<open>\<open>math.sin\<close> on a float\<close>
  mul_f :: "'f \<Rightarrow> 'f \<Rightarrow> 'f"      \<comment> \<open>float \<open>*\<close>\<close>
  add_f :: "'f \<Rightarrow> 'f \<Rightarrow> 'f"      \<comment> \<open>float \<open>+\<close>\<close>
  sub_f :: "'f \<Rightarrow> 'f \<Rightarrow> 'f"      \<comment> \<open>float \<open>-\<close>\<close>
  float_of_int :: "int \<Rightarrow> 'f"    \<comment> \<open>the conversion applied to an \<open>int\<close> operand\<close>
  ten :: "'f"                     \<comment> \<open>the literal \<open>10.0\<close>\<close>
  tenth :: "'f"                   \<comment> \<open>the literal \<open>0.1\<close>\<close>

text \<open>
  A Python number is an \<open>int\<close> or a \<open>float\<close>: \<open>compute\<close> starts from the
  \<open>int\<close> 1 and continues with floats.
\<close>

datatype 'f num = PyInt int | PyFloat 'f

fun to_float :: "'f runtime \<Rightarrow> 'f num \<Rightarrow> 'f" where
  "to_float M (PyInt i) = float_of_int M i"
| "to_float M (PyFloat x) = x"

text \<open>Python's \<open>+\<close> on two numbers: exact on two ints, float addition otherwise.\<close>

fun py_add :: "'f runtime \<Rightarrow> 'f num \<Rightarrow> 'f num \<Rightarrow> 'f num" where
  "py_add M (PyInt i) (PyInt j) = PyInt (i + j)"
| "py_add M x y = PyFloat (add_f M (to_float M x) (to_float M y))"

section \<open>The observable world\<close>

text \<open>
  What a call leaves behind: the class attribute \<open>Timer._start_time\<close> (\<open>None\<close>
  until the first \<open>start_measure\<close>) and the sequence of effects on the outside, in the
  order they happen.  A printed line is kept as its fragments: literal text, a float
  rendered with a fixed number of decimals (\<open>{:.5f}\<close> is \<open>Fixed 5\<close>), or the report
  text that \<open>pstats\<close> wrote into the string buffer.  \<open>print\<close>'s own line end is
  not part of the fragments.
\<close>

datatype 'f frag = Str string | Fixed nat 'f | Stats_text

datatype 'f event = Sleep 'f | Print "'f frag list" | Prof_enable | Prof_disable

record 'f world =
  start_time :: "'f option"
  trace :: "'f event list"

datatype error = TypeError

text \<open>The state after the cell defining \<open>Timer\<close> has run: \<open>_start_time = None\<close>.\<close>

definition initial_world :: "'f world" where
  "initial_world = \<lparr>start_time = None, trace = []\<rparr>"

section \<open>The Timer helper\<close>

text \<open>
  \<^verbatim>\<open>
  class Timer:
      _start_time = None
      @classmethod
      def start_measure(cls):
          cls._start_time = time.perf_counter()

      @classmethod
      def print_time(cls):
          time_elapsed = time.perf_counter() - cls._start_time
          print('Time elapsed: {:.5f} s'.format(time_elapsed))
  \<close>
  The argument \<open>now\<close> is the value that the call of \<open>time.perf_counter()\<close> in the
  body returns.  Subtracting \<open>None\<close> from a float raises \<open>TypeError\<close>.
\<close>

definition start_measure :: "'f \<Rightarrow> ('f, 'z) world_scheme \<Rightarrow> ('f, 'z) world_scheme" where
  "start_measure now w = w\<lparr>start_time := Some now\<rparr>"

definition print_time ::
  "'f runtime \<Rightarrow> 'f \<Rightarrow> ('f, 'z) world_scheme \<Rightarrow> error + ('f, 'z) world_scheme" where
  "print_time M now w =
     (case start_time w of
        None \<Rightarrow> Inl TypeError
      | Some t0 \<Rightarrow>
          (let time_elapsed = sub_f M now t0
           in Inr (w\<lparr>trace := trace w @
                 [Print [Str ''Time elapsed: '', Fixed 5 time_elapsed, Str '' s'']]\<rparr>)))"

text \<open>
  A client of the timer is a sequence of calls, each with the counter reading it
  obtains; an exception ends the sequence.
\<close>

datatype call = Start_measure | Print_time

fun timer_call ::
  "'f runtime \<Rightarrow> call \<times> 'f \<Rightarrow> ('f, 'z) world_scheme \<Rightarrow> error + ('f, 'z) world_scheme" where
  "timer_call M (Start_measure, now) w = Inr (start_measure now w)"
| "timer_call M (Print_time, now) w = print_time M now w"

fun run ::
  "'f runtime \<Rightarrow> (call \<times> 'f) list \<Rightarrow> ('f, 'z) world_scheme \<Rightarrow> error + ('f, 'z) world_scheme" where
  "run M [] w = Inr w"
| "run M (c # cs) w = (case timer_call M c w of Inl e \<Rightarrow> Inl e | Inr w' \<Rightarrow> run M cs w')"

text \<open>
  The reading taken by the most recent \<open>start_measure\<close> of a sequence of calls, if
  there is one: the notion the description of the timer refers to.
\<close>

fun last_start :: "(call \<times> 'f) list \<Rightarrow> 'f option" where
  "last_start [] = None"
| "last_start ((c, now) # cs) =
     (case last_start cs of
        Some t \<Rightarrow> Some t
      | None \<Rightarrow> (if c = Start_measure then Some now else None))"

section \<open>The synthetic workload\<close>

text \<open>
  \<^verbatim>\<open>
  def f(x):
      return 10.0 * sin(x)

  def compute(n):
      x = 1
      for i in range(n):
          x = f(x)
      return x
  \<close>
  \<open>sin\<close> converts an \<open>int\<close> argument to a float first; the only \<open>int\<close> that
  \<open>compute\<close> ever passes is 1.  \<open>range(n)\<close> is empty for \<open>n \<le> 0\<close>, which is what
  \<open>nat n\<close> gives.
\<close>

definition f :: "'f runtime \<Rightarrow> 'f num \<Rightarrow> 'f num" where
  "f M x = PyFloat (mul_f M (ten M) (sin_f M (to_float M x)))"

definition compute :: "'f runtime \<Rightarrow> int \<Rightarrow> 'f num" where
  "compute M n = fold (\<lambda>i x. f M x) [0..<nat n] (PyInt 1)"

text \<open>
  \<^verbatim>\<open>
  def fun1():
      return compute(3*10**5)
  def fun2():
      return compute(5*10**5)
  def fun3():
      sleep_()
      return compute(7*10**5)
  def sleep_():
      sleep(0.1)
  def main():
      sum = fun1() + fun2() + fun3()
      sleep_()
      print('Calcuated sum: {:.3f}\n'.format(sum))
  \<close>
\<close>

definition fun1 :: "'f runtime \<Rightarrow> 'f num" where
  "fun1 M = compute M (3 * 10 ^ 5)"

definition fun2 :: "'f runtime \<Rightarrow> 'f num" where
  "fun2 M = compute M (5 * 10 ^ 5)"

text \<open>The source's \<open>sleep_\<close>; a constant name cannot end in an underscore.\<close>

definition sleep_fun :: "'f runtime \<Rightarrow> ('f, 'z) world_scheme \<Rightarrow> ('f, 'z) world_scheme" where
  "sleep_fun M w = w\<lparr>trace := trace w @ [Sleep (tenth M)]\<rparr>"

definition fun3 :: "'f runtime \<Rightarrow> ('f, 'z) world_scheme \<Rightarrow> 'f num \<times> ('f, 'z) world_scheme" where
  "fun3 M w = (let w1 = sleep_fun M w in (compute M (7 * 10 ^ 5), w1))"

definition main :: "'f runtime \<Rightarrow> ('f, 'z) world_scheme \<Rightarrow> ('f, 'z) world_scheme" where
  "main M w =
     (let r1 = fun1 M;
          r2 = fun2 M;
          (r3, w1) = fun3 M w;
          sum = py_add M (py_add M r1 r2) r3;
          w2 = sleep_fun M w1
      in w2\<lparr>trace := trace w2 @
            [Print [Str ''Calcuated sum: '', Fixed 3 (to_float M sum), Str [CHR 0x0A]]]\<rparr>)"

section \<open>The profiler decorator\<close>

text \<open>
  \<^verbatim>\<open>
  def profile(func):
      def inner(*args, **kwargs):
          pr = cProfile.Profile()
          pr.enable()
          ret_val = func(*args, **kwargs)
          pr.disable()
          ios = io.StringIO()
          ps = pstats.Stats(pr, stream=ios)
          ps.print_stats()
          print(ios.getvalue())
          return ret_val
      return inner
  \<close>
  A Python function is a function from its arguments (positional and keyword, of any
  type \<open>'a\<close>) and the world to an exception or a result with the new world.  There is
  no \<open>try\<close> around the call: an exception of \<open>func\<close> leaves \<open>inner\<close> at once.
\<close>

definition profile ::
  "('a \<Rightarrow> ('f, 'z) world_scheme \<Rightarrow> 'e + 'r \<times> ('f, 'z) world_scheme)
    \<Rightarrow> 'a \<Rightarrow> ('f, 'z) world_scheme \<Rightarrow> 'e + 'r \<times> ('f, 'z) world_scheme" where
  "profile func args w =
     (let w1 = w\<lparr>trace := trace w @ [Prof_enable]\<rparr>
      in case func args w1 of
           Inl e \<Rightarrow> Inl e
         | Inr (ret_val, w2) \<Rightarrow>
             Inr (ret_val, w2\<lparr>trace := trace w2 @ [Prof_disable, Print [Stats_text]]\<rparr>))"

text \<open>
  \<^verbatim>\<open>
  @profile
  def main_with_prof():
      sum = fun1() + fun2() + fun3()
      sleep_()
      print('Calcuated sum: {:.3f}\n'.format(sum))
  \<close>
  The body is that of \<open>main\<close>; it takes no argument and returns \<open>None\<close>.
\<close>

definition main_with_prof ::
  "'f runtime \<Rightarrow> ('f, 'z) world_scheme \<Rightarrow> error + unit \<times> ('f, 'z) world_scheme" where
  "main_with_prof M w = profile (\<lambda>_ w'. Inr ((), main M w')) () w"

text \<open>
  An idealised runtime in which floats are the real numbers and the operations are
  exact.  It serves to run the definitions on concrete inputs.
\<close>

definition ideal :: "real runtime" where
  "ideal = \<lparr>sin_f = sin, mul_f = (*), add_f = (+), sub_f = (-),
            float_of_int = of_int, ten = 10, tenth = 1 / 10\<rparr>"

section \<open>Properties of \<open>fib\<close>\<close>

lemma fib_base: "fib 0 = Some 1" "fib 1 = Some 1"
  by (subst fib.simps, simp)+

lemma fib_step:
  "2 \<le> n \<Longrightarrow> fib (n - 1) = Some a \<Longrightarrow> fib (n - 2) = Some b \<Longrightarrow> fib n = Some (a + b)"
  by (subst fib.simps) simp

lemma fib_of_nat: "fib (int k) = Some (int (fibonacci (Suc k)))"
proof (induction k rule: fibonacci.induct)
  case 1
  show ?case by (simp add: fib_base)
next
  case 2
  show ?case by (simp add: fib_base)
next
  case (3 k)
  have "fib (int (Suc (Suc k))) = Some (int (fibonacci (Suc (Suc k))) + int (fibonacci (Suc k)))"
  proof (rule fib_step)
    show "2 \<le> int (Suc (Suc k))" by simp
    show "fib (int (Suc (Suc k)) - 1) = Some (int (fibonacci (Suc (Suc k))))"
      using 3(1) by simp
    show "fib (int (Suc (Suc k)) - 2) = Some (int (fibonacci (Suc k)))"
      using 3(2) by simp
  qed
  then show ?case by simp
qed

lemma fib_nonneg: "0 \<le> n \<Longrightarrow> fib n = Some (int (fibonacci (nat n + 1)))"
  using fib_of_nat [of "nat n"] by simp

lemma fib_Some_nonneg:
  assumes "fib n = Some v"
  shows "0 \<le> n"
proof (rule fib.raw_induct [where P = "\<lambda>n v. 0 \<le> n", OF _ assms])
  fix g :: "int \<Rightarrow> int option" and m :: int and r :: int
  assume IH: "\<And>x y. g x = Some y \<Longrightarrow> 0 \<le> x"
  assume body: "(if m = 0 \<or> m = 1 then Some 1
      else g (m - 1) \<bind> (\<lambda>a. g (m - 2) \<bind> (\<lambda>b. Some (a + b)))) = Some r"
  show "0 \<le> m"
  proof (cases "m = 0 \<or> m = 1")
    case True
    then show ?thesis by auto
  next
    case False
    with body obtain a where "g (m - 1) = Some a"
      by (auto simp: bind_eq_Some_conv)
    then have "0 \<le> m - 1" by (rule IH)
    then show ?thesis by simp
  qed
qed

lemma fib_negative: "n < 0 \<Longrightarrow> fib n = None"
proof (rule ccontr)
  assume neg: "n < 0" and "fib n \<noteq> None"
  then obtain v where "fib n = Some v" by auto
  then have "0 \<le> n" by (rule fib_Some_nonneg)
  with neg show False by simp
qed

lemma fibonacci_pos: "0 < fibonacci (Suc k)"
  by (induction k rule: fibonacci.induct) simp_all

lemma fib_calls_base: "fib_calls 0 = Some 1" "fib_calls 1 = Some 1"
  by (subst fib_calls.simps, simp)+

lemma fib_calls_step:
  "2 \<le> n \<Longrightarrow> fib_calls (n - 1) = Some a \<Longrightarrow> fib_calls (n - 2) = Some b
    \<Longrightarrow> fib_calls n = Some (1 + a + b)"
  by (subst fib_calls.simps) simp

lemma fib_calls_of_nat: "fib_calls (int k) = Some (2 * fibonacci (Suc k) - 1)"
proof (induction k rule: fibonacci.induct)
  case 1
  show ?case by (simp add: fib_calls_base)
next
  case 2
  show ?case by (simp add: fib_calls_base)
next
  case (3 k)
  have "fib_calls (int (Suc (Suc k)))
      = Some (1 + (2 * fibonacci (Suc (Suc k)) - 1) + (2 * fibonacci (Suc k) - 1))"
  proof (rule fib_calls_step)
    show "2 \<le> int (Suc (Suc k))" by simp
    show "fib_calls (int (Suc (Suc k)) - 1) = Some (2 * fibonacci (Suc (Suc k)) - 1)"
      using 3(1) by simp
    show "fib_calls (int (Suc (Suc k)) - 2) = Some (2 * fibonacci (Suc k) - 1)"
      using 3(2) by simp
  qed
  moreover have "0 < fibonacci (Suc (Suc k))" and "0 < fibonacci (Suc k)"
    by (rule fibonacci_pos)+
  ultimately show ?case by simp
qed

lemma fib_30: "fib 30 = Some 1346269"
proof -
  note f0 = fib_base(1) and f1 = fib_base(2)
  have f2: "fib 2 = Some 2" using fib_step [of 2 1 1] f1 f0 by simp
  have f3: "fib 3 = Some 3" using fib_step [of 3 2 1] f2 f1 by simp
  have f4: "fib 4 = Some 5" using fib_step [of 4 3 2] f3 f2 by simp
  have f5: "fib 5 = Some 8" using fib_step [of 5 5 3] f4 f3 by simp
  have f6: "fib 6 = Some 13" using fib_step [of 6 8 5] f5 f4 by simp
  have f7: "fib 7 = Some 21" using fib_step [of 7 13 8] f6 f5 by simp
  have f8: "fib 8 = Some 34" using fib_step [of 8 21 13] f7 f6 by simp
  have f9: "fib 9 = Some 55" using fib_step [of 9 34 21] f8 f7 by simp
  have f10: "fib 10 = Some 89" using fib_step [of 10 55 34] f9 f8 by simp
  have f11: "fib 11 = Some 144" using fib_step [of 11 89 55] f10 f9 by simp
  have f12: "fib 12 = Some 233" using fib_step [of 12 144 89] f11 f10 by simp
  have f13: "fib 13 = Some 377" using fib_step [of 13 233 144] f12 f11 by simp
  have f14: "fib 14 = Some 610" using fib_step [of 14 377 233] f13 f12 by simp
  have f15: "fib 15 = Some 987" using fib_step [of 15 610 377] f14 f13 by simp
  have f16: "fib 16 = Some 1597" using fib_step [of 16 987 610] f15 f14 by simp
  have f17: "fib 17 = Some 2584" using fib_step [of 17 1597 987] f16 f15 by simp
  have f18: "fib 18 = Some 4181" using fib_step [of 18 2584 1597] f17 f16 by simp
  have f19: "fib 19 = Some 6765" using fib_step [of 19 4181 2584] f18 f17 by simp
  have f20: "fib 20 = Some 10946" using fib_step [of 20 6765 4181] f19 f18 by simp
  have f21: "fib 21 = Some 17711" using fib_step [of 21 10946 6765] f20 f19 by simp
  have f22: "fib 22 = Some 28657" using fib_step [of 22 17711 10946] f21 f20 by simp
  have f23: "fib 23 = Some 46368" using fib_step [of 23 28657 17711] f22 f21 by simp
  have f24: "fib 24 = Some 75025" using fib_step [of 24 46368 28657] f23 f22 by simp
  have f25: "fib 25 = Some 121393" using fib_step [of 25 75025 46368] f24 f23 by simp
  have f26: "fib 26 = Some 196418" using fib_step [of 26 121393 75025] f25 f24 by simp
  have f27: "fib 27 = Some 317811" using fib_step [of 27 196418 121393] f26 f25 by simp
  have f28: "fib 28 = Some 514229" using fib_step [of 28 317811 196418] f27 f26 by simp
  have f29: "fib 29 = Some 832040" using fib_step [of 29 514229 317811] f28 f27 by simp
  have f30: "fib 30 = Some 1346269" using fib_step [of 30 832040 514229] f29 f28 by simp
  show ?thesis by (rule f30)
qed

text \<open>
  Claim C1.  For a nonnegative argument \<open>fib\<close> returns the Fibonacci number of the
  textbook sequence one place further on, \<open>fib(n) = F\<^sub>n\<^sub>+\<^sub>1\<close> (the sequence
  1, 1, 2, 3, 5, ... counted from 0), and the call \<open>fib(30)\<close> of the first cell
  returns 1346269.
\<close>

theorem fib_correct:
  "(0 \<le> n \<longrightarrow> fib n = Some (int (fibonacci (nat n + 1)))) \<and> fib 30 = Some 1346269"
  using fib_nonneg [of n] fib_30 by simp

theorem fib_correct_witness:
  "(0::int) \<le> 7 \<and> fib 7 = Some 21 \<and> fib 30 = Some 1346269"
  using fib_correct [of 7] by (simp add: eval_nat_numeral)

text \<open>
  Claim C2.  \<open>fib(0) = 1\<close>, \<open>fib(1) = 1\<close>, and for every \<open>n \<ge> 2\<close> both recursive
  calls return and \<open>fib(n)\<close> is their sum.  Nothing is memoised: for every
  nonnegative \<open>n\<close> the call \<open>fib(n)\<close> performs \<open>2 * fib(n) - 1\<close> invocations of
  \<open>fib\<close>, one for every node of the full recursion tree.
\<close>

theorem fib_recurrence:
  "fib 0 = Some 1 \<and> fib 1 = Some 1 \<and>
   (2 \<le> n \<longrightarrow> (\<exists>a b. fib (n - 1) = Some a \<and> fib (n - 2) = Some b \<and> fib n = Some (a + b))) \<and>
   (0 \<le> n \<longrightarrow> (\<exists>v c. fib n = Some v \<and> fib_calls n = Some c \<and> int c = 2 * v - 1))"
proof (intro conjI impI)
  show "fib 0 = Some 1" and "fib 1 = Some 1" by (rule fib_base)+
next
  assume n: "2 \<le> n"
  then have a: "fib (n - 1) = Some (int (fibonacci (nat (n - 1) + 1)))"
    and b: "fib (n - 2) = Some (int (fibonacci (nat (n - 2) + 1)))"
    by (simp_all add: fib_nonneg)
  from fib_step [OF n a b] a b
  show "\<exists>a b. fib (n - 1) = Some a \<and> fib (n - 2) = Some b \<and> fib n = Some (a + b)"
    by blast
next
  assume n: "0 \<le> n"
  have pos: "0 < fibonacci (Suc (nat n))" by (rule fibonacci_pos)
  have v: "fib n = Some (int (fibonacci (Suc (nat n))))"
    using fib_nonneg [OF n] by simp
  have c: "fib_calls n = Some (2 * fibonacci (Suc (nat n)) - 1)"
    using fib_calls_of_nat [of "nat n"] n by simp
  have "int (2 * fibonacci (Suc (nat n)) - 1) = 2 * int (fibonacci (Suc (nat n))) - 1"
    using pos by (simp add: of_nat_diff)
  with v c show "\<exists>v c. fib n = Some v \<and> fib_calls n = Some c \<and> int c = 2 * v - 1"
    by blast
qed

theorem fib_recurrence_witness:
  "(2::int) \<le> 3 \<and> fib (3 - 1) = Some 2 \<and> fib (3 - 2) = Some 1 \<and> fib 3 = Some 3
   \<and> fib_calls 3 = Some 5"
proof -
  have f2: "fib 2 = Some 2" using fib_step [of 2 1 1] fib_base by simp
  have f3: "fib 3 = Some 3" using fib_step [of 3 2 1] f2 fib_base by simp
  from fib_recurrence [of 3] f3 have "fib_calls 3 = Some 5" by auto
  with f2 f3 fib_base show ?thesis by simp
qed

text \<open>
  Claim C8.  \<open>fib\<close> returns a value for every nonnegative argument, and for a
  negative argument it does not return: the recursion only moves further away from the
  base cases 0 and 1.
\<close>

theorem fib_terminates:
  "(0 \<le> n \<longrightarrow> (\<exists>v. fib n = Some v)) \<and> (n < 0 \<longrightarrow> fib n = None)"
  using fib_nonneg [of n] fib_negative [of n] by simp

theorem fib_terminates_witness:
  "(0::int) \<le> 4 \<and> (\<exists>v. fib 4 = Some v) \<and> (-1::int) < 0 \<and> fib (-1) = None"
  using fib_terminates [of 4] fib_terminates [of "-1"] by simp

section \<open>Properties of the Timer\<close>

lemma print_time_Some:
  "start_time w = Some t0 \<Longrightarrow>
   print_time M now w = Inr (w\<lparr>trace := trace w @
     [Print [Str ''Time elapsed: '', Fixed 5 (sub_f M now t0), Str '' s'']]\<rparr>)"
  by (simp add: print_time_def)

lemma print_time_None: "start_time w = None \<Longrightarrow> print_time M now w = Inl TypeError"
  by (simp add: print_time_def)

lemma print_time_keeps_start: "print_time M now w = Inr w' \<Longrightarrow> start_time w' = start_time w"
  by (auto simp: print_time_def split: option.splits)

lemma timer_call_start_time:
  "timer_call M (c, now) w = Inr w' \<Longrightarrow>
   start_time w' = (if c = Start_measure then Some now else start_time w)"
  by (cases c) (auto simp: start_measure_def dest: print_time_keeps_start)

lemma run_start_time:
  "run M cs w = Inr w' \<Longrightarrow>
   start_time w' = (case last_start cs of Some t \<Rightarrow> Some t | None \<Rightarrow> start_time w)"
proof (induction cs arbitrary: w)
  case Nil
  then show ?case by simp
next
  case (Cons c cs)
  obtain k now where c: "c = (k, now)" by (cases c)
  from Cons.prems obtain w1 where step: "timer_call M c w = Inr w1" and rest: "run M cs w1 = Inr w'"
    by (auto split: sum.splits)
  from step c have "start_time w1 = (if k = Start_measure then Some now else start_time w)"
    by (simp add: timer_call_start_time)
  with Cons.IH [OF rest] c show ?case
    by (simp split: option.splits)
qed

lemma run_append:
  "run M (cs @ ds) w = (case run M cs w of Inl e \<Rightarrow> Inl e | Inr w' \<Rightarrow> run M ds w')"
  by (induction cs arbitrary: w) (simp_all split: sum.splits)

lemma run_started:
  "start_time w \<noteq> None \<Longrightarrow> \<exists>w'. run M cs w = Inr w' \<and> start_time w' \<noteq> None"
proof (induction cs arbitrary: w)
  case Nil
  then show ?case by simp
next
  case (Cons c cs)
  obtain k now where c: "c = (k, now)" by (cases c)
  from Cons.prems obtain t0 where t0: "start_time w = Some t0" by auto
  have "\<exists>w1. timer_call M c w = Inr w1 \<and> start_time w1 \<noteq> None"
    using c t0 by (cases k) (simp_all add: start_measure_def print_time_Some)
  then obtain w1 where "timer_call M c w = Inr w1" and "start_time w1 \<noteq> None" by blast
  with Cons.IH [of w1] show ?case by simp
qed

text \<open>
  Claim C3.  \<open>start_measure\<close> stores the counter reading it takes in
  \<open>_start_time\<close>; and after any sequence of timer calls that ran to its end, a
  \<open>print_time\<close> taking the reading \<open>now\<close> prints the float difference of \<open>now\<close>
  and the reading stored by the most recent \<open>start_measure\<close> of that sequence,
  rendered with five decimals, and changes nothing else.
\<close>

theorem timer_elapsed:
  "start_time (start_measure now w) = Some now \<and>
   (run M cs w = Inr w' \<longrightarrow> last_start cs = Some t0 \<longrightarrow>
      print_time M now w' = Inr (w'\<lparr>trace := trace w' @
        [Print [Str ''Time elapsed: '', Fixed 5 (sub_f M now t0), Str '' s'']]\<rparr>))"
proof (intro conjI impI)
  show "start_time (start_measure now w) = Some now"
    by (simp add: start_measure_def)
next
  assume "run M cs w = Inr w'" and "last_start cs = Some t0"
  then have "start_time w' = Some t0"
    by (simp add: run_start_time)
  then show "print_time M now w' = Inr (w'\<lparr>trace := trace w' @
        [Print [Str ''Time elapsed: '', Fixed 5 (sub_f M now t0), Str '' s'']]\<rparr>)"
    by (rule print_time_Some)
qed

theorem timer_elapsed_witness:
  "run ideal [(Start_measure, 5), (Print_time, 7), (Start_measure, 8)] initial_world
     = Inr \<lparr>start_time = Some 8,
            trace = [Print [Str ''Time elapsed: '', Fixed 5 2, Str '' s'']]\<rparr> \<and>
   last_start [(Start_measure, 5::real), (Print_time, 7), (Start_measure, 8)] = Some 8 \<and>
   print_time ideal 11 \<lparr>start_time = Some 8,
            trace = [Print [Str ''Time elapsed: '', Fixed 5 2, Str '' s'']]\<rparr>
     = Inr \<lparr>start_time = Some 8,
            trace = [Print [Str ''Time elapsed: '', Fixed 5 2, Str '' s''],
                     Print [Str ''Time elapsed: '', Fixed 5 3, Str '' s'']]\<rparr>"
proof -
  let ?cs = "[(Start_measure, 5::real), (Print_time, 7), (Start_measure, 8)]"
  let ?w1 = "\<lparr>start_time = Some (8::real),
            trace = [Print [Str ''Time elapsed: '', Fixed 5 2, Str '' s'']]\<rparr>"
  have r: "run ideal ?cs initial_world = Inr ?w1"
    by (simp add: initial_world_def start_measure_def print_time_def ideal_def)
  have l: "last_start ?cs = Some 8" by simp
  from timer_elapsed [of 11 initial_world ideal ?cs ?w1 8] r l
  show ?thesis by (simp add: ideal_def)
qed

text \<open>
  Claim C6.  \<open>start_measure\<close> changes the field \<open>_start_time\<close> and nothing else (the
  output and any further state are as before); \<open>print_time\<close> leaves \<open>_start_time\<close>
  and any further state as they were; so two \<open>print_time\<close> calls in a row after one
  \<open>start_measure\<close> both succeed and both subtract the same stored reading.
\<close>

theorem timer_frame:
  "start_measure now w = w\<lparr>start_time := Some now\<rparr> \<and>
   trace (start_measure now w) = trace w \<and>
   world.more (start_measure now w) = world.more w \<and>
   (print_time M now w = Inr w' \<longrightarrow>
      start_time w' = start_time w \<and> world.more w' = world.more w) \<and>
   (\<exists>w1 w2. print_time M t1 (start_measure t0 w) = Inr w1 \<and> print_time M t2 w1 = Inr w2 \<and>
      start_time w1 = Some t0 \<and> start_time w2 = Some t0 \<and>
      trace w2 = trace w @
        [Print [Str ''Time elapsed: '', Fixed 5 (sub_f M t1 t0), Str '' s''],
         Print [Str ''Time elapsed: '', Fixed 5 (sub_f M t2 t0), Str '' s'']])"
  by (auto simp: start_measure_def print_time_def split: option.splits)

theorem timer_frame_witness:
  "print_time ideal 7 (start_measure 5 initial_world)
     = Inr \<lparr>start_time = Some 5,
            trace = [Print [Str ''Time elapsed: '', Fixed 5 2, Str '' s'']]\<rparr> \<and>
   start_time \<lparr>start_time = Some (5::real),
            trace = [Print [Str ''Time elapsed: '', Fixed 5 (2::real), Str '' s'']]\<rparr>
     = start_time (start_measure (5::real) initial_world)"
proof -
  let ?w' = "\<lparr>start_time = Some (5::real),
            trace = [Print [Str ''Time elapsed: '', Fixed 5 (2::real), Str '' s'']]\<rparr>"
  have p: "print_time ideal 7 (start_measure 5 initial_world) = Inr ?w'"
    by (simp add: initial_world_def start_measure_def print_time_def ideal_def)
  from timer_frame [of 7 "start_measure 5 initial_world" ideal ?w'] p
  show ?thesis by simp
qed

text \<open>
  Claim C7.  From the initial state, a \<open>print_time\<close> that no \<open>start_measure\<close> has
  preceded ends in \<open>TypeError\<close>.  Once \<open>start_measure\<close> has been called, every
  sequence of timer calls that follows runs to its end without an exception, and so
  does a further \<open>print_time\<close>.
\<close>

theorem print_time_unstarted:
  "(last_start cs = None \<longrightarrow>
      run M (cs @ [(Print_time, now)]) initial_world = Inl TypeError) \<and>
   (\<exists>w'. run M ((Start_measure, t0) # cs) w = Inr w' \<and>
      (\<exists>w''. print_time M now w' = Inr w''))"
proof (intro conjI impI)
  assume none: "last_start cs = None"
  show "run M (cs @ [(Print_time, now)]) initial_world = Inl TypeError"
  proof (cases "run M cs initial_world")
    case (Inl e)
    then show ?thesis by (cases e) (simp add: run_append)
  next
    case (Inr w')
    with none have "start_time w' = None"
      by (simp add: run_start_time initial_world_def)
    with Inr show ?thesis by (simp add: run_append print_time_None)
  qed
next
  have "start_time (start_measure t0 w) \<noteq> None" by (simp add: start_measure_def)
  from run_started [OF this, of M cs]
  obtain w' where r: "run M cs (start_measure t0 w) = Inr w'" and s: "start_time w' \<noteq> None"
    by blast
  from s obtain t where "start_time w' = Some t" by auto
  then have "\<exists>w''. print_time M now w' = Inr w''" by (simp add: print_time_Some)
  with r show "\<exists>w'. run M ((Start_measure, t0) # cs) w = Inr w' \<and>
      (\<exists>w''. print_time M now w' = Inr w'')" by simp
qed

theorem print_time_unstarted_witness:
  "last_start ([] :: (call \<times> real) list) = None \<and>
   run ideal ([] @ [(Print_time, 3)]) initial_world = Inl TypeError \<and>
   (\<exists>w'. run ideal [(Start_measure, 1), (Print_time, 3)] initial_world = Inr w')"
  using print_time_unstarted [of "[]" ideal 3 0 initial_world, THEN conjunct1]
    print_time_unstarted [of "[(Print_time, 3)]" ideal 4 1 initial_world, THEN conjunct2]
  by auto

section \<open>Properties of the workload and of the decorator\<close>

lemma fold_const_funpow: "fold (\<lambda>i. g) [0..<k] x = (g ^^ k) x"
  by (induction k) simp_all

lemma compute_funpow: "compute M n = (f M ^^ nat n) (PyInt 1)"
  unfolding compute_def by (rule fold_const_funpow)

lemma compute_pos:
  assumes "0 < n"
  shows "\<exists>x. compute M n = PyFloat x"
proof -
  from assms obtain k where "nat n = Suc k"
    by (cases "nat n") simp_all
  then have "compute M n = f M ((f M ^^ k) (PyInt 1))"
    by (simp add: compute_funpow)
  then show ?thesis by (simp add: f_def)
qed

text \<open>
  Claim C4.  \<open>f(x)\<close> is the float product of \<open>10.0\<close> and \<open>sin(x)\<close>; for every
  nonnegative \<open>n\<close>, \<open>compute(n)\<close> is \<open>f\<close> applied \<open>n\<close> times to the integer 1;
  \<open>fun1\<close>, \<open>fun2\<close> and \<open>fun3\<close> return \<open>compute(3*10**5)\<close>,
  \<open>compute(5*10**5)\<close> and \<open>compute(7*10**5)\<close>, and \<open>fun3\<close> alone adds one sleep of
  \<open>0.1\<close> to what has happened before it returns.
\<close>

theorem compute_iterates:
  "(0 \<le> n \<longrightarrow> compute M n = (f M ^^ nat n) (PyInt 1)) \<and>
   f M x = PyFloat (mul_f M (ten M) (sin_f M (to_float M x))) \<and>
   fun1 M = compute M (3 * 10 ^ 5) \<and>
   fun2 M = compute M (5 * 10 ^ 5) \<and>
   fun3 M w = (compute M (7 * 10 ^ 5), w\<lparr>trace := trace w @ [Sleep (tenth M)]\<rparr>)"
proof (intro conjI impI)
  show "compute M n = (f M ^^ nat n) (PyInt 1)" by (rule compute_funpow)
  show "f M x = PyFloat (mul_f M (ten M) (sin_f M (to_float M x)))" by (rule f_def)
  show "fun1 M = compute M (3 * 10 ^ 5)" by (rule fun1_def)
  show "fun2 M = compute M (5 * 10 ^ 5)" by (rule fun2_def)
  show "fun3 M w = (compute M (7 * 10 ^ 5), w\<lparr>trace := trace w @ [Sleep (tenth M)]\<rparr>)"
    unfolding fun3_def sleep_fun_def Let_def by (rule refl)
qed

theorem compute_iterates_witness:
  "(0::int) \<le> 2 \<and> compute ideal 2 = PyFloat (10 * sin (10 * sin 1))"
  using compute_iterates [of 2 ideal "PyInt 1" initial_world, THEN conjunct1]
  by (simp add: f_def ideal_def numeral_2_eq_2)

text \<open>
  Claim C5.  The three results are floats; \<open>main\<close> adds them from left to right,
  and what it leaves behind is exactly: the sleep inside \<open>fun3\<close>, its own single call
  of \<open>sleep_\<close>, and one printed line with the sum rendered with three decimals.
  \<open>Timer._start_time\<close> and any further state are as before the call.
\<close>

theorem main_effects:
  "\<exists>x1 x2 x3. fun1 M = PyFloat x1 \<and> fun2 M = PyFloat x2 \<and> fst (fun3 M w) = PyFloat x3 \<and>
     main M w = w\<lparr>trace := trace w @
       [Sleep (tenth M), Sleep (tenth M),
        Print [Str ''Calcuated sum: '', Fixed 3 (add_f M (add_f M x1 x2) x3), Str [CHR 0x0A]]]\<rparr> \<and>
     start_time (main M w) = start_time w \<and> world.more (main M w) = world.more w"
proof -
  obtain x1 where x1: "compute M (3 * 10 ^ 5) = PyFloat x1"
    using compute_pos [of "3 * 10 ^ 5" M] by auto
  obtain x2 where x2: "compute M (5 * 10 ^ 5) = PyFloat x2"
    using compute_pos [of "5 * 10 ^ 5" M] by auto
  obtain x3 where x3: "compute M (7 * 10 ^ 5) = PyFloat x3"
    using compute_pos [of "7 * 10 ^ 5" M] by auto
  have m: "main M w = w\<lparr>trace := trace w @
       [Sleep (tenth M), Sleep (tenth M),
        Print [Str ''Calcuated sum: '', Fixed 3 (add_f M (add_f M x1 x2) x3), Str [CHR 0x0A]]]\<rparr>"
    unfolding main_def fun1_def fun2_def fun3_def sleep_fun_def Let_def x1 x2 x3
    by simp
  have "fun1 M = PyFloat x1" "fun2 M = PyFloat x2" "fst (fun3 M w) = PyFloat x3"
    unfolding fun1_def fun2_def fun3_def Let_def x1 x2 x3 by simp_all
  moreover have "start_time (main M w) = start_time w" "world.more (main M w) = world.more w"
    unfolding m by simp_all
  ultimately show ?thesis using m by blast
qed

text \<open>
  The path the decorator takes when the wrapped function raises: the exception leaves
  \<open>inner\<close> before \<open>pr.disable()\<close> is reached.
\<close>

lemma profile_raises:
  "func args (w\<lparr>trace := trace w @ [Prof_enable]\<rparr>) = Inl e \<Longrightarrow> profile func args w = Inl e"
  by (simp add: profile_def)

lemma main_with_prof_eq:
  "main_with_prof M w =
     Inr ((), (main M (w\<lparr>trace := trace w @ [Prof_enable]\<rparr>))
        \<lparr>trace := trace (main M (w\<lparr>trace := trace w @ [Prof_enable]\<rparr>)) @
            [Prof_disable, Print [Stats_text]]\<rparr>)"
  by (simp add: main_with_prof_def profile_def Let_def)

text \<open>
  Claim C9.  Whenever the call of \<open>func\<close> made by the decorated function returns a
  value, the decorated function returns that same value; the profiler is enabled
  immediately before the call and disabled immediately after it, so whatever
  \<open>func\<close> did lies between the two, followed by the printed report.  For a function
  without effects the decorated call returns what the plain call returns.
\<close>

theorem profile_transparent:
  "(func args (w\<lparr>trace := trace w @ [Prof_enable]\<rparr>) = Inr (r, w2) \<longrightarrow>
      profile func args w = Inr (r, w2\<lparr>trace := trace w2 @ [Prof_disable, Print [Stats_text]]\<rparr>) \<and>
      (trace w2 = trace w @ Prof_enable # es \<longrightarrow>
         (\<exists>w'. profile func args w = Inr (r, w') \<and>
            trace w' = trace w @ Prof_enable # es @ [Prof_disable, Print [Stats_text]]))) \<and>
   profile (\<lambda>a v. Inr (g a, v)) args w =
     Inr (g args, w\<lparr>trace := trace w @ [Prof_enable, Prof_disable, Print [Stats_text]]\<rparr>)"
  by (simp add: profile_def)

theorem profile_transparent_witness:
  "(\<lambda>n w. Inr (n + 1, w\<lparr>trace := trace w @ [Sleep 1]\<rparr>)) (41::int)
      ((initial_world :: real world)\<lparr>trace := trace initial_world @ [Prof_enable]\<rparr>)
     = (Inr (42, \<lparr>start_time = None, trace = [Prof_enable, Sleep 1]\<rparr>) :: error + int \<times> real world) \<and>
   profile (\<lambda>n w. Inr (n + 1, w\<lparr>trace := trace w @ [Sleep 1]\<rparr>)) (41::int) (initial_world :: real world)
     = (Inr (42, \<lparr>start_time = None,
                  trace = [Prof_enable, Sleep 1, Prof_disable, Print [Stats_text]]\<rparr>)
        :: error + int \<times> real world)"
proof -
  let ?func = "\<lambda>(n::int) (w::real world). (Inr (n + 1, w\<lparr>trace := trace w @ [Sleep 1]\<rparr>)
      :: error + int \<times> real world)"
  let ?w2 = "\<lparr>start_time = None, trace = [Prof_enable, Sleep (1::real)]\<rparr>"
  have c: "?func 41 (initial_world\<lparr>trace := trace initial_world @ [Prof_enable]\<rparr>) = Inr (42, ?w2)"
    by (simp add: initial_world_def)
  from profile_transparent [of ?func 41 initial_world 42 ?w2 "[Sleep 1]" "\<lambda>n. n", THEN conjunct1] c
  show ?thesis by (simp add: initial_world_def)
qed

end
